theory Spec2Isabelle
  imports Main "HOL-Library.Word" "HOL-Library.Sublist"
begin

section \<open>JavaScript values used by the client\<close>

subsection \<open>Strings\<close>

text \<open>
  A JavaScript string is a sequence of UTF-16 code units. Literals of the source that are
  plain ASCII are written through \<open>ascii\<close>; other code units are written as numbers.
\<close>

type_synonym jsstring = "16 word list"

definition ascii :: "string \<Rightarrow> jsstring" where
  "ascii s = map of_char s"

text \<open>
  \<^verbatim>\<open>String.prototype.trim\<close> removes the code units of WhiteSpace and LineTerminator
  (ECMAScript) from both ends.
\<close>

definition isWhiteSpace :: "16 word \<Rightarrow> bool" where
  "isWhiteSpace c \<longleftrightarrow>
     c \<in> set [0x0009, 0x000A, 0x000B, 0x000C, 0x000D, 0x0020, 0x00A0, 0x1680,
              0x2000, 0x2001, 0x2002, 0x2003, 0x2004, 0x2005, 0x2006, 0x2007,
              0x2008, 0x2009, 0x200A, 0x2028, 0x2029, 0x202F, 0x205F, 0x3000, 0xFEFF]"

definition trim :: "jsstring \<Rightarrow> jsstring" where
  "trim s = rev (dropWhile isWhiteSpace (rev (dropWhile isWhiteSpace s)))"

text \<open>
  \<^verbatim>\<open>String(n)\<close> of an integer, as a template literal renders it (decimal digits, a
  minus sign for negatives; integers below \<open>10^21\<close> in size, which is where JavaScript
  switches to exponent notation).
\<close>

fun digits :: "nat \<Rightarrow> jsstring" where
  "digits n = (if n < 10 then [of_nat (48 + n)] else digits (n div 10) @ [of_nat (48 + n mod 10)])"

declare digits.simps [simp del]

definition String_int :: "int \<Rightarrow> jsstring" where
  "String_int i = (if i < 0 then ascii ''-'' @ digits (nat (- i)) else digits (nat i))"

text \<open>\<^verbatim>\<open>xs.slice(-n)\<close>: the last \<open>n\<close> elements, all of them when there are fewer.\<close>

definition slice_last :: "nat \<Rightarrow> 'a list \<Rightarrow> 'a list" where
  "slice_last n xs = drop (length xs - n) xs"

subsection \<open>Errors\<close>

text \<open>
  A thrown value or a rejected promise. The handlers only ask whether its name is
  \<^verbatim>\<open>AbortError\<close>; any other error carries its rendering \<^verbatim>\<open>String(e)\<close>.
\<close>

datatype jserror = AbortError | OtherError jsstring

subsection \<open>Documents, messages, request and response bodies\<close>

record doc =
  file_name :: jsstring
  chunks :: int

record source =
  src_file :: jsstring
  src_chunk :: int
  excerpt :: jsstring

text \<open>
  \<^verbatim>\<open>messages: [{id, role:'user'|'assistant'|'system', content, sources?, ts}]\<close>.
  The role is kept a string, as in the source; \<open>sources = None\<close> is an absent field.
\<close>

record msg =
  msg_id :: jsstring
  role :: jsstring
  content :: jsstring
  sources :: "source list option"
  ts :: int

record hist_entry =
  h_role :: jsstring
  h_content :: jsstring

text \<open>The object given to \<^verbatim>\<open>JSON.stringify\<close> in \<^verbatim>\<open>send\<close>; \<open>None\<close> is \<^verbatim>\<open>null\<close>.\<close>

record chat_body =
  message :: jsstring
  top_k :: int
  history :: "hist_entry list"
  selected_files :: "jsstring list option"

datatype jsfile = File jsstring "8 word list"

datatype body = NoBody | JsonBody chat_body | FormBody jsfile

text \<open>The options object of a fetch call; \<^verbatim>\<open>{}\<close> is \<open>no_options\<close>.\<close>

record options =
  http_method :: "jsstring option"
  headers :: "(jsstring \<times> jsstring) list"
  body :: body

definition no_options :: options where
  "no_options = \<lparr>http_method = None, headers = [], body = NoBody\<rparr>"

text \<open>
  A value read from a parsed JSON body: \<^verbatim>\<open>undefined\<close> for an absent property,
  \<^verbatim>\<open>null\<close>, a boolean, a number (an integer, as the API declares its numbers), a
  string, or an array or object, of which only the rendering \<^verbatim>\<open>String(v)\<close> is kept.
\<close>

datatype jsval = JUndefined | JNull | JBool bool | JNum int | JStr jsstring | JObject jsstring

text \<open>\<^verbatim>\<open>String(v)\<close>, as a template literal renders \<^verbatim>\<open>${v}\<close>.\<close>

definition String_val :: "jsval \<Rightarrow> jsstring" where
  "String_val v =
     (case v of
        JUndefined \<Rightarrow> ascii ''undefined''
      | JNull \<Rightarrow> ascii ''null''
      | JBool b \<Rightarrow> (if b then ascii ''true'' else ascii ''false'')
      | JNum n \<Rightarrow> String_int n
      | JStr x \<Rightarrow> x
      | JObject x \<Rightarrow> x)"

text \<open>
  The parsed body of a response, seen through the properties the client reads.
  \<open>chunks_indexed\<close>, \<open>chunks_deleted\<close> and \<open>file_name\<close> are kept as the values
  they are; \<open>files\<close>, \<open>answer\<close> and \<open>sources\<close> have the types of the API and
  are \<open>None\<close> when absent.
\<close>

record data =
  chunks_indexed :: jsval
  chunks_deleted :: jsval
  data_file_name :: jsval
  files :: "doc list option"
  answer :: "jsstring option"
  data_sources :: "source list option"

text \<open>
  A response: \<^verbatim>\<open>res.ok\<close>, the outcome of \<^verbatim>\<open>await res.text()\<close> and the outcome of
  \<^verbatim>\<open>await res.json()\<close>. Reading the body happens after \<^verbatim>\<open>fetch\<close> has resolved, when
  \<^verbatim>\<open>fetchWithTimeout\<close> has already cleared its timer: a read whose body never arrives
  stays pending for ever (\<open>None\<close>). A read that settles rejects (\<open>Inl\<close>), for
  \<^verbatim>\<open>json\<close> on a body that is not JSON, or yields its value; \<open>Inr None\<close> is the JSON
  value \<^verbatim>\<open>null\<close>, on which every property access throws a TypeError.
\<close>

record response =
  ok :: bool
  text_of :: "(jserror + jsstring) option"
  json :: "(jserror + data option) option"

text \<open>The TypeError of \<^verbatim>\<open>data.p\<close> on \<^verbatim>\<open>null\<close>; the apostrophe is the code unit \<open>0x27\<close>.\<close>

definition TypeError_null :: "jsstring \<Rightarrow> jserror" where
  "TypeError_null p =
     OtherError (ascii ''TypeError: Cannot read properties of null (reading '' @ [0x27] @ p @
                 [0x27] @ ascii '')'')"

section \<open>The environment and the state\<close>

text \<open>
  What the underlying \<^verbatim>\<open>fetch\<close> does with a call when nobody aborts it: it settles after
  some milliseconds, resolved with a response or rejected with an error, or it stays
  pending for ever.
\<close>

datatype behaviour = Settles nat "jserror + response" | Pending

text \<open>
  Everything a handler takes from outside during one run: the build-time variable
  \<^verbatim>\<open>VITE_API_URL\<close>, the network, the answer of \<^verbatim>\<open>window.confirm\<close>, the results of
  \<^verbatim>\<open>uid()\<close> and \<^verbatim>\<open>Date.now()\<close> for the k-th message the run creates, and
  \<^verbatim>\<open>encodeURIComponent\<close> (which throws on a lone surrogate).
\<close>

record env =
  VITE_API_URL :: "jsstring option"
  net :: "jsstring \<Rightarrow> options \<Rightarrow> behaviour"
  confirm :: "jsstring \<Rightarrow> bool"
  fresh :: "nat \<Rightarrow> jsstring \<times> int"
  encodeURIComponent :: "jsstring \<Rightarrow> jserror + jsstring"

definition API :: "env \<Rightarrow> jsstring" where
  "API e = (case VITE_API_URL e of
              None \<Rightarrow> ascii ''http://127.0.0.1:8000''
            | Some u \<Rightarrow> if u = [] then ascii ''http://127.0.0.1:8000'' else u)"

definition STORAGE_KEY :: jsstring where
  "STORAGE_KEY = ascii ''rag_chat_history_v1''"

definition SELECTED_KEY :: jsstring where
  "SELECTED_KEY = ascii ''rag_selected_files_v1''"

text \<open>
  The values the client stores are JSON texts of the message list and of the selection;
  they are kept unserialised. \<open>localStorage = None\<close> is a storage every access to which
  throws (the source wraps each access in try/catch).
\<close>

datatype stored = MessagesJSON "msg list" | SelectionJSON "jsstring list"

type_synonym storage = "(jsstring \<rightharpoonup> stored) option"

definition removeItem :: "jsstring \<Rightarrow> storage \<Rightarrow> jserror + storage" where
  "removeItem k st = (case st of
       None \<Rightarrow> Inl (OtherError (ascii ''SecurityError''))
     | Some m \<Rightarrow> Inr (Some (m(k := None))))"

definition setItem :: "jsstring \<Rightarrow> stored \<Rightarrow> storage \<Rightarrow> jserror + storage" where
  "setItem k v st = (case st of
       None \<Rightarrow> Inl (OtherError (ascii ''SecurityError''))
     | Some m \<Rightarrow> Inr (Some (m(k \<mapsto> v))))"

definition persisted :: "storage \<Rightarrow> jsstring \<Rightarrow> stored option" where
  "persisted st k = (case st of None \<Rightarrow> None | Some m \<Rightarrow> m k)"

text \<open>
  The React state of \<^verbatim>\<open>App\<close>, the ref \<^verbatim>\<open>messagesRef\<close>, the browser's storage, the
  list of fetch calls issued so far (URL, options, timeout in ms), most recent last, and
  the error, if any, that a queued state updater throws when React runs it at the next
  render.
\<close>

record app =
  "file" :: "jsfile option"
  uploadMsg :: jsstring
  uploading :: bool
  docs :: "doc list"
  docsLoading :: bool
  selectedFiles :: "jsstring list"
  docSearch :: jsstring
  input :: jsstring
  loading :: bool
  backendOk :: bool
  chunksIndexed :: "int option"
  messages :: "msg list"
  messagesRef :: "msg list"
  localStorage :: storage
  sent :: "(jsstring \<times> options \<times> nat) list"
  renderError :: "jserror option"

section \<open>fetchWithTimeout\<close>

text \<open>
  \<^verbatim>\<open>setTimeout(f, timeoutMs)\<close> keeps its delay as a signed 32-bit integer of at least 1:
  a delay below 1 or above \<open>2^31 - 1\<close> becomes 1 ms.
\<close>

definition timer_delay :: "nat \<Rightarrow> nat" where
  "timer_delay timeoutMs = (if timeoutMs < 1 \<or> 2147483647 < timeoutMs then 1 else timeoutMs)"

text \<open>
  The race between the timer and the call: the timer aborts the call when its delay has
  passed; a call that has not settled before that rejects with an AbortError, one that
  has settled keeps its outcome (and the timer is cleared).
\<close>

definition race :: "nat \<Rightarrow> behaviour \<Rightarrow> jserror + response" where
  "race timeoutMs b =
     (case b of
        Pending \<Rightarrow> Inl AbortError
      | Settles t r \<Rightarrow> if t < timer_delay timeoutMs then r else Inl AbortError)"

text \<open>
  \<^verbatim>\<open>fetchWithTimeout(url, options = {}, timeoutMs = 15000)\<close>: an omitted argument is
  \<open>None\<close>. The call is recorded in \<open>sent\<close>.
\<close>

definition fetchWithTimeout ::
  "env \<Rightarrow> jsstring \<Rightarrow> options option \<Rightarrow> nat option \<Rightarrow> app \<Rightarrow> (jserror + response) \<times> app" where
  "fetchWithTimeout e u opts tmo s =
     (let options = (case opts of None \<Rightarrow> no_options | Some x \<Rightarrow> x);
          timeoutMs = (case tmo of None \<Rightarrow> 15000 | Some t \<Rightarrow> t)
      in (race timeoutMs (net e u options), s\<lparr>sent := sent s @ [(u, options, timeoutMs)]\<rparr>))"

section \<open>Control flow of the handlers\<close>

text \<open>
  How a handler body ends: normally, by throwing (for an async function, rejecting), or
  not at all, when it awaits a promise that never settles.
\<close>

datatype completion = Normal | Throws jserror | Hangs

text \<open>
  A handler body takes the state and returns how it ends and the state it leaves (for a
  body that hangs, the state in which it is stuck).
\<close>

type_synonym proc = "app \<Rightarrow> completion \<times> app"

definition skip :: proc where
  "skip s = (Normal, s)"

definition upd :: "(app \<Rightarrow> app) \<Rightarrow> proc" where
  "upd f s = (Normal, f s)"

definition throw :: "jserror \<Rightarrow> proc" where
  "throw err s = (Throws err, s)"

definition seq :: "proc \<Rightarrow> proc \<Rightarrow> proc" where
  "seq p q s = (case p s of (Normal, s1) \<Rightarrow> q s1 | (c, s1) \<Rightarrow> (c, s1))"

text \<open>A catch block runs on a throw; a try block that hangs never reaches it.\<close>

definition try_catch :: "proc \<Rightarrow> (jserror \<Rightarrow> proc) \<Rightarrow> proc" where
  "try_catch p h s = (case p s of (Throws err, s1) \<Rightarrow> h err s1 | (c, s1) \<Rightarrow> (c, s1))"

text \<open>
  A finally block runs after a normal end (a return included) and after a throw, which it
  then passes on unless it throws itself; a try block that hangs never reaches it.
\<close>

definition try_finally :: "proc \<Rightarrow> proc \<Rightarrow> proc" where
  "try_finally p q s =
     (case p s of
        (Hangs, s1) \<Rightarrow> (Hangs, s1)
      | (c, s1) \<Rightarrow> (case q s1 of (Normal, s2) \<Rightarrow> (c, s2) | (c', s2) \<Rightarrow> (c', s2)))"

text \<open>\<^verbatim>\<open>const res = await fetchWithTimeout(...)\<close> followed by the rest of the block.\<close>

definition await_fetch ::
  "(app \<Rightarrow> (jserror + response) \<times> app) \<Rightarrow> (response \<Rightarrow> proc) \<Rightarrow> proc" where
  "await_fetch f k s = (case f s of (Inl err, s1) \<Rightarrow> (Throws err, s1) | (Inr res, s1) \<Rightarrow> k res s1)"

text \<open>\<^verbatim>\<open>await res.json()\<close> or \<^verbatim>\<open>await res.text()\<close>, followed by the rest of the block.\<close>

definition await_body :: "(jserror + 'a) option \<Rightarrow> ('a \<Rightarrow> proc) \<Rightarrow> proc" where
  "await_body v k s =
     (case v of None \<Rightarrow> (Hangs, s) | Some (Inl err) \<Rightarrow> (Throws err, s) | Some (Inr x) \<Rightarrow> k x s)"

text \<open>An expression that may throw, followed by the rest of the block.\<close>

definition await_value :: "jserror + 'a \<Rightarrow> ('a \<Rightarrow> proc) \<Rightarrow> proc" where
  "await_value v k = (case v of Inl err \<Rightarrow> throw err | Inr x \<Rightarrow> k x)"

text \<open>\<^verbatim>\<open>data.p\<close>, where \<open>name\<close> is the name of \<open>p\<close>: a TypeError when \<open>data\<close> is \<^verbatim>\<open>null\<close>.\<close>

definition get_prop :: "data option \<Rightarrow> jsstring \<Rightarrow> (data \<Rightarrow> 'a) \<Rightarrow> ('a \<Rightarrow> proc) \<Rightarrow> proc" where
  "get_prop d name p k = (case d of None \<Rightarrow> throw (TypeError_null name) | Some x \<Rightarrow> k (p x))"

text \<open>
  \<^verbatim>\<open>{ id: uid(), role, content, sources?, ts: Date.now() }\<close>, for the k-th message the run
  creates.
\<close>

definition new_msg :: "env \<Rightarrow> nat \<Rightarrow> jsstring \<Rightarrow> jsstring \<Rightarrow> source list option \<Rightarrow> msg" where
  "new_msg e k r c srcs =
     \<lparr>msg_id = fst (fresh e k), role = r, content = c, sources = srcs, ts = snd (fresh e k)\<rparr>"

text \<open>\<^verbatim>\<open>setMessages((prev) => [...prev, m])\<close>\<close>

definition push_msg :: "msg \<Rightarrow> proc" where
  "push_msg m = upd (\<lambda>s. s\<lparr>messages := messages s @ [m]\<rparr>)"

text \<open>
  \<^verbatim>\<open>setMessages((prev) => [...prev, m])\<close> where building \<open>m\<close> reads \<^verbatim>\<open>data.p\<close> first:
  the read happens when React runs the updater, not in the handler, so on \<^verbatim>\<open>null\<close> the
  TypeError is thrown at the render, past the handler's try block, and the handler goes
  on.
\<close>

definition push_msg_reading :: "data option \<Rightarrow> jsstring \<Rightarrow> (data \<Rightarrow> msg) \<Rightarrow> proc" where
  "push_msg_reading d name m =
     (case d of
        None \<Rightarrow> upd (\<lambda>s. s\<lparr>renderError := Some (TypeError_null name)\<rparr>)
      | Some x \<Rightarrow> push_msg (m x))"

section \<open>The handlers of App\<close>

text \<open>
  Each handler is run as a whole from a state in which the render and its effects have
  completed: the values its closure holds are those of the state, and no other handler
  runs while it awaits. State updates apply in the order of the source. A handler that
  awaits a body that never arrives hangs there, with the updates made so far.
\<close>

definition canSend :: "app \<Rightarrow> bool" where
  "canSend s \<longleftrightarrow> length (trim (input s)) > 0 \<and> \<not> loading s \<and> backendOk s"

definition refreshHealth :: "env \<Rightarrow> proc" where
  "refreshHealth e =
     try_catch
       (await_fetch (fetchWithTimeout e (API e @ ascii ''/health'') (Some no_options) (Some 5000))
          (\<lambda>res.
             if \<not> ok res then throw (OtherError (ascii ''Error: health not ok''))
             else await_body (json res) (\<lambda>d.
               seq (upd (\<lambda>s. s\<lparr>backendOk := True\<rparr>))
                   (get_prop d (ascii ''chunks_indexed'') chunks_indexed (\<lambda>v.
                      upd (\<lambda>s. s\<lparr>chunksIndexed :=
                             (case v of JNum n \<Rightarrow> Some n | _ \<Rightarrow> None)\<rparr>))))))
       (\<lambda>_. seq (upd (\<lambda>s. s\<lparr>backendOk := False\<rparr>))
                 (upd (\<lambda>s. s\<lparr>chunksIndexed := None\<rparr>)))"

definition refreshDocs :: "env \<Rightarrow> proc" where
  "refreshDocs e =
     seq (upd (\<lambda>s. s\<lparr>docsLoading := True\<rparr>))
       (try_finally
          (try_catch
             (await_fetch
                (fetchWithTimeout e (API e @ ascii ''/documents'') (Some no_options) (Some 10000))
                (\<lambda>res. await_body (json res) (\<lambda>d. get_prop d (ascii ''files'') files (\<lambda>fs.
                   let files = (case fs of None \<Rightarrow> [] | Some x \<Rightarrow> x) in
                   seq (upd (\<lambda>s. s\<lparr>docs := files\<rparr>))
                       (upd (\<lambda>s. s\<lparr>selectedFiles :=
                          filter (\<lambda>f. list_ex (\<lambda>d. file_name d = f) files) (selectedFiles s)\<rparr>))))))
             (\<lambda>_. skip))
          (upd (\<lambda>s. s\<lparr>docsLoading := False\<rparr>)))"

definition toggleSelected :: "jsstring \<Rightarrow> app \<Rightarrow> app" where
  "toggleSelected fileName s =
     s\<lparr>selectedFiles :=
         (let prev = selectedFiles s
          in if fileName \<in> set prev then filter (\<lambda>x. x \<noteq> fileName) prev
             else prev @ [fileName])\<rparr>"

definition clearSelection :: "app \<Rightarrow> app" where
  "clearSelection s = s\<lparr>selectedFiles := []\<rparr>"

definition selectAll :: "app \<Rightarrow> app" where
  "selectAll s = s\<lparr>selectedFiles := map file_name (docs s)\<rparr>"

definition selectOnly :: "jsstring \<Rightarrow> app \<Rightarrow> app" where
  "selectOnly fileName s = s\<lparr>selectedFiles := [fileName]\<rparr>"

text \<open>
  The non-ASCII letter of the French messages is the code unit \<open>0xE9\<close>; the double quote
  is \<open>0x22\<close> and the apostrophe \<open>0x27\<close>.
\<close>

definition timeout_msg :: "jsstring \<Rightarrow> jsstring" where
  "timeout_msg what = what @ ascii '' (backend ne r'' @ [0xE9] @ ascii ''pond pas).''"

text \<open>\<^verbatim>\<open>e?.name === "AbortError" ? t : String(e)\<close>\<close>

definition error_text :: "jsstring \<Rightarrow> jserror \<Rightarrow> jsstring" where
  "error_text t err = (case err of AbortError \<Rightarrow> t | OtherError x \<Rightarrow> x)"


definition deleteDoc :: "env \<Rightarrow> jsstring \<Rightarrow> proc" where
  "deleteDoc e fileName s =
     (if fileName = [] then (Normal, s)
      else if \<not> confirm e (ascii ''Supprimer '' @ [0x22] @ fileName @ [0x22] @ ascii '' de l'' @
                            [0x27] @ ascii ''index ?'') then (Normal, s)
      else
        try_catch
          (await_value (encodeURIComponent e fileName) (\<lambda>enc.
           await_fetch
             (fetchWithTimeout e (API e @ ascii ''/documents/'' @ enc)
                (Some \<lparr>http_method = Some (ascii ''DELETE''), headers = [], body = NoBody\<rparr>)
                (Some 15000))
             (\<lambda>res.
                if \<not> ok res then
                  await_body (text_of res) (\<lambda>txt.
                    push_msg (new_msg e 0 (ascii ''system'') (ascii ''Erreur suppression: '' @ txt) None))
                else
                  await_body (json res) (\<lambda>d.
                    seq (push_msg_reading d (ascii ''file_name'') (\<lambda>x.
                           new_msg e 0 (ascii ''system'')
                             (ascii ''Document supprim'' @ [0xE9] @ ascii '': '' @
                              String_val (data_file_name x) @
                              ascii '' (chunks supprim'' @ [0xE9] @ ascii ''s: '' @
                              String_val (chunks_deleted x) @ ascii '').'') None))
                     (seq (upd (\<lambda>s. s\<lparr>selectedFiles :=
                                  filter (\<lambda>x. x \<noteq> fileName) (selectedFiles s)\<rparr>))
                      (seq (refreshDocs e) (refreshHealth e)))))))
          (\<lambda>err.
             let m = error_text (timeout_msg (ascii ''Timeout suppression'')) err in
             seq (push_msg (new_msg e 0 (ascii ''system'') (ascii ''Erreur suppression: '' @ m) None))
                 (refreshHealth e)) s)"

definition clearIndex :: "env \<Rightarrow> proc" where
  "clearIndex e s =
     (if \<not> confirm e (ascii ''Vider tout l'' @ [0x27] @ ascii ''index (tous les documents) ?'')
      then (Normal, s)
      else
        try_catch
          (await_fetch
             (fetchWithTimeout e (API e @ ascii ''/index/clear'')
                (Some \<lparr>http_method = Some (ascii ''POST''), headers = [], body = NoBody\<rparr>)
                (Some 20000))
             (\<lambda>res.
                if \<not> ok res then
                  await_body (text_of res) (\<lambda>txt.
                    push_msg (new_msg e 0 (ascii ''system'') (ascii ''Erreur clear index: '' @ txt) None))
                else
                  await_body (json res) (\<lambda>d.
                    seq (push_msg_reading d (ascii ''chunks_deleted'') (\<lambda>x.
                           new_msg e 0 (ascii ''system'')
                             (ascii ''Index vid'' @ [0xE9] @ ascii '' (chunks supprim'' @ [0xE9] @
                              ascii ''s: '' @ String_val (chunks_deleted x) @ ascii '').'') None))
                     (seq (upd (\<lambda>s. s\<lparr>selectedFiles := []\<rparr>))
                      (seq (refreshDocs e) (refreshHealth e))))))
          (\<lambda>err.
             let m = error_text (timeout_msg (ascii ''Timeout clear index'')) err in
             seq (push_msg (new_msg e 0 (ascii ''system'') (ascii ''Erreur clear index: '' @ m) None))
                 (refreshHealth e)) s)"

definition send :: "env \<Rightarrow> proc" where
  "send e s =
     (let q = trim (input s) in
      if q = [] \<or> loading s \<or> \<not> backendOk s then (Normal, s)
      else
        let userMsg = new_msg e 0 (ascii ''user'') q None;
            prevMessages = messagesRef s;
            nextMessages = prevMessages @ [userMsg];
            history =
              map (\<lambda>m. \<lparr>h_role = role m, h_content = content m\<rparr>)
                (slice_last 12
                  (filter (\<lambda>m. role m = ascii ''user'' \<or> role m = ascii ''assistant'') nextMessages));
            selected_files = (if length (selectedFiles s) > 0 then Some (selectedFiles s) else None)
        in
        seq (upd (\<lambda>s. s\<lparr>messages := nextMessages\<rparr>))
         (seq (upd (\<lambda>s. s\<lparr>input := []\<rparr>))
          (seq (upd (\<lambda>s. s\<lparr>loading := True\<rparr>))
           (try_finally
             (try_catch
               (await_fetch
                  (fetchWithTimeout e (API e @ ascii ''/chat'')
                     (Some \<lparr>http_method = Some (ascii ''POST''),
                            headers = [(ascii ''Content-Type'', ascii ''application/json'')],
                            body = JsonBody \<lparr>message = q, top_k = 5, history = history,
                                             selected_files = selected_files\<rparr>\<rparr>)
                     (Some 30000))
                  (\<lambda>res.
                     if \<not> ok res then
                       await_body (text_of res) (\<lambda>txt.
                         push_msg (new_msg e 1 (ascii ''assistant'') (ascii ''Error: '' @ txt) (Some [])))
                     else
                       await_body (json res) (\<lambda>d.
                       get_prop d (ascii ''answer'') answer (\<lambda>ans.
                       get_prop d (ascii ''sources'') data_sources (\<lambda>srcs.
                         let a = (case ans of None \<Rightarrow> [] | Some x \<Rightarrow> x);
                             sl = (case srcs of None \<Rightarrow> [] | Some x \<Rightarrow> x)
                         in seq (push_msg (new_msg e 1 (ascii ''assistant'') a (Some sl)))
                                (refreshHealth e))))))
               (\<lambda>err.
                  let m = error_text (ascii ''Timeout: backend ne r'' @ [0xE9] @ ascii ''pond pas.'') err in
                  seq (push_msg (new_msg e 1 (ascii ''assistant'') (ascii ''Error: '' @ m) (Some [])))
                      (refreshHealth e)))
             (upd (\<lambda>s. s\<lparr>loading := False\<rparr>))))) s)"

definition resetChat :: "app \<Rightarrow> app" where
  "resetChat s =
     (let s1 = s\<lparr>messages := []\<rparr>;
          s2 = s1\<lparr>input := []\<rparr>;
          s3 = s2\<lparr>uploadMsg := []\<rparr>
      in case removeItem STORAGE_KEY (localStorage s3) of
           Inl _ \<Rightarrow> s3
         | Inr st \<Rightarrow> s3\<lparr>localStorage := st\<rparr>)"

text \<open>
  The effects that run after a render in which \<open>messages\<close> or \<open>selectedFiles\<close>
  changed: the ref follows the messages, and both lists are written to the storage
  (a failing write is ignored).
\<close>

definition effects :: "app \<Rightarrow> app" where
  "effects s =
     (let s1 = s\<lparr>messagesRef := messages s\<rparr>;
          s2 = (case setItem STORAGE_KEY (MessagesJSON (messages s1)) (localStorage s1) of
                  Inl _ \<Rightarrow> s1 | Inr st \<Rightarrow> s1\<lparr>localStorage := st\<rparr>)
      in case setItem SELECTED_KEY (SelectionJSON (selectedFiles s2)) (localStorage s2) of
           Inl _ \<Rightarrow> s2 | Inr st \<Rightarrow> s2\<lparr>localStorage := st\<rparr>)"

text \<open>The fetch calls a run of \<open>p\<close> from \<open>s\<close> issues, in order.\<close>

definition issued :: "proc \<Rightarrow> app \<Rightarrow> (jsstring \<times> options \<times> nat) list" where
  "issued p s = drop (length (sent s)) (sent (snd (p s)))"

section \<open>The index behind the API\<close>

text \<open>
  The backend that the client reaches through \<^verbatim>\<open>/documents/upload\<close>,
  \<^verbatim>\<open>/documents/{name}\<close> and \<^verbatim>\<open>/index/clear\<close> is not among the sources. Its Vector
  Index and ingestion path are modelled from sections 3, 4.2, 4.4 and 4.6 of the
  specification. The Chunker and the Embedding Provider are parameters.
\<close>

text \<open>Modelled from the spec: the errors of the ingestion path (sections 4.1, 4.4, 7).\<close>

datatype index_error = EmptyInputError | DuplicateDocumentError | EmbeddingError

text \<open>
  Modelled from the spec: a Chunk, \<open>{id, file_name, chunk_index, text, embedding}\<close>
  (section 3).
\<close>

record 'v chunk =
  chunk_id :: nat
  chunk_file :: string
  chunk_index :: nat
  chunk_text :: string
  embedding :: 'v

text \<open>
  Modelled from the spec: the Vector Index, the chunks it stores and the next free chunk
  id (section 4.2). A document is the set of chunks that share its \<open>file_name\<close>.
\<close>

record 'v index =
  stored_chunks :: "'v chunk list"
  next_id :: nat

text \<open>Modelled from the spec: the index without chunks.\<close>

definition empty_index :: "'v index" where
  "empty_index = \<lparr>stored_chunks = [], next_id = 0\<rparr>"

text \<open>Modelled from the spec: whether \<open>file_name\<close> already exists (section 4.4).\<close>

definition doc_exists :: "string \<Rightarrow> 'v index \<Rightarrow> bool" where
  "doc_exists f ix = list_ex (\<lambda>c. chunk_file c = f) (stored_chunks ix)"

text \<open>Modelled from the spec: the chunk count that \<open>list()\<close> shows for a document (section 4.6).\<close>

definition chunk_count :: "string \<Rightarrow> 'v index \<Rightarrow> nat" where
  "chunk_count f ix = length (filter (\<lambda>c. chunk_file c = f) (stored_chunks ix))"

text \<open>Modelled from the spec: \<open>count() \<rightarrow> integer\<close>, the chunks currently stored (section 4.2).\<close>

definition count :: "'v index \<Rightarrow> nat" where
  "count ix = length (stored_chunks ix)"

text \<open>
  Modelled from the spec: \<open>insert(document, chunks) \<rightarrow> count inserted\<close> (section 4.2);
  chunk indices are \<open>0, 1, ...\<close> and ids are fresh.
\<close>

definition insert_document :: "string \<Rightarrow> (string \<times> 'v) list \<Rightarrow> 'v index \<Rightarrow> nat \<times> 'v index" where
  "insert_document f items ix =
     (length items,
      \<lparr>stored_chunks = stored_chunks ix @
         map (\<lambda>(i, (t, v)). \<lparr>chunk_id = next_id ix + i, chunk_file = f, chunk_index = i,
                               chunk_text = t, embedding = v\<rparr>)
             (zip [0..<length items] items),
       next_id = next_id ix + length items\<rparr>)"

text \<open>Modelled from the spec: \<open>delete_document(file_name) \<rightarrow> count deleted\<close> (section 4.2).\<close>

definition delete_document :: "string \<Rightarrow> 'v index \<Rightarrow> nat \<times> 'v index" where
  "delete_document f ix =
     (length (filter (\<lambda>c. chunk_file c = f) (stored_chunks ix)),
      ix\<lparr>stored_chunks := filter (\<lambda>c. chunk_file c \<noteq> f) (stored_chunks ix)\<rparr>)"

text \<open>Modelled from the spec: \<open>clear() \<rightarrow> count deleted\<close> (section 4.2).\<close>

definition clear :: "'v index \<Rightarrow> nat \<times> 'v index" where
  "clear ix = (length (stored_chunks ix), ix\<lparr>stored_chunks := []\<rparr>)"

text \<open>
  Modelled from the spec: embedding every chunk of a document; one failure fails the whole
  document (section 4.2).
\<close>

fun embed_all :: "(string \<Rightarrow> 'v option) \<Rightarrow> string list \<Rightarrow> (string \<times> 'v) list option" where
  "embed_all embedder [] = Some []"
| "embed_all embedder (x # xs) =
     (case embedder x of
        None \<Rightarrow> None
      | Some v \<Rightarrow> (case embed_all embedder xs of None \<Rightarrow> None | Some r \<Rightarrow> Some ((x, v) # r)))"

text \<open>
  Modelled from the spec: \<open>ingest(file_name, raw_text) \<rightarrow> {file_name, chunks_indexed}\<close>
  (section 4.4). An existing \<open>file_name\<close> is rejected with a
  \<open>DuplicateDocumentError\<close>; a text that is empty or yields no chunk is an
  \<open>EmptyInputError\<close>; nothing is committed unless every step succeeded. The spec does
  not order the duplicate check and the validation; the duplicate check is first here.
\<close>

definition ingest ::
  "(string \<Rightarrow> string list) \<Rightarrow> (string \<Rightarrow> 'v option) \<Rightarrow> string \<Rightarrow> string \<Rightarrow> 'v index
     \<Rightarrow> (index_error + nat) \<times> 'v index" where
  "ingest chunker embedder f raw_text ix =
     (if doc_exists f ix then (Inl DuplicateDocumentError, ix)
      else if raw_text = [] \<or> chunker raw_text = [] then (Inl EmptyInputError, ix)
      else (case embed_all embedder (chunker raw_text) of
              None \<Rightarrow> (Inl EmbeddingError, ix)
            | Some items \<Rightarrow> (case insert_document f items ix of (n, ix') \<Rightarrow> (Inr n, ix'))))"

section \<open>Sample inputs\<close>

text \<open>An environment whose network treats every call the same way.\<close>

definition const_env :: "behaviour \<Rightarrow> env" where
  "const_env b = \<lparr>VITE_API_URL = None, net = (\<lambda>u opts. b), confirm = (\<lambda>_. True),
     fresh = (\<lambda>k. (ascii ''m'' @ digits k, 1700000000000 + int k)),
     encodeURIComponent = (\<lambda>x. Inr x)\<rparr>"


text \<open>A response that arrives after 20 ms and whose body can be read.\<close>

definition reply :: "bool \<Rightarrow> jserror + data option \<Rightarrow> behaviour" where
  "reply b j = Settles 20 (Inr \<lparr>ok = b, text_of = Some (Inr (ascii ''Internal Server Error'')),
                                json = Some j\<rparr>)"


text \<open>
  A backend that holds \<^verbatim>\<open>a.txt\<close> (2 chunks) only, answers every call in 20 ms, and
  reports one chunk deleted for \<^verbatim>\<open>b.txt\<close>.
\<close>

definition sample_data :: data where
  "sample_data = \<lparr>chunks_indexed = JNum 2, chunks_deleted = JNum 1,
     data_file_name = JStr (ascii ''b.txt''),
     files = Some [\<lparr>file_name = ascii ''a.txt'', chunks = 2\<rparr>],
     answer = Some (ascii ''Paris.''),
     data_sources = Some [\<lparr>src_file = ascii ''a.txt'', src_chunk = 0, excerpt = ascii ''Paris is''\<rparr>]\<rparr>"

definition sample_app :: app where
  "sample_app = \<lparr>file = None, uploadMsg = [], uploading = False,
     docs = [\<lparr>file_name = ascii ''a.txt'', chunks = 2\<rparr>, \<lparr>file_name = ascii ''b.txt'', chunks = 1\<rparr>],
     docsLoading = False, selectedFiles = [ascii ''b.txt'', ascii ''a.txt''], docSearch = [],
     input = ascii '' hello '', loading = False, backendOk = True, chunksIndexed = Some 3,
     messages = [\<lparr>msg_id = ascii ''s1'', role = ascii ''system'', content = ascii ''indexed'',
                   sources = None, ts = 1\<rparr>,
                 \<lparr>msg_id = ascii ''u1'', role = ascii ''user'', content = ascii ''hi'',
                   sources = None, ts = 2\<rparr>],
     messagesRef = [\<lparr>msg_id = ascii ''s1'', role = ascii ''system'', content = ascii ''indexed'',
                   sources = None, ts = 1\<rparr>,
                 \<lparr>msg_id = ascii ''u1'', role = ascii ''user'', content = ascii ''hi'',
                   sources = None, ts = 2\<rparr>],
     localStorage = Some [STORAGE_KEY \<mapsto> MessagesJSON [],
                          SELECTED_KEY \<mapsto> SelectionJSON [ascii ''b.txt'', ascii ''a.txt'']],
     sent = [], renderError = None\<rparr>"

text \<open>The chat request that \<open>send\<close> builds from \<open>sample_app\<close>.\<close>

definition sample_chat_body :: chat_body where
  "sample_chat_body = \<lparr>message = ascii ''hello'', top_k = 5,
     history = [\<lparr>h_role = ascii ''user'', h_content = ascii ''hi''\<rparr>,
                \<lparr>h_role = ascii ''user'', h_content = ascii ''hello''\<rparr>],
     selected_files = Some [ascii ''b.txt'', ascii ''a.txt'']\<rparr>"

definition chat_options :: "chat_body \<Rightarrow> options" where
  "chat_options b = \<lparr>http_method = Some (ascii ''POST''),
     headers = [(ascii ''Content-Type'', ascii ''application/json'')], body = JsonBody b\<rparr>"

text \<open>
  A state with thirteen earlier user messages, \<^verbatim>\<open>a\<close> to \<^verbatim>\<open>m\<close>, then a system
  message and an assistant message, and no selection.
\<close>

definition busy_app :: app where
  "busy_app = sample_app\<lparr>selectedFiles := [],
     messagesRef := map (\<lambda>c. \<lparr>msg_id = [c], role = ascii ''user'', content = [c],
                                 sources = None, ts = 3\<rparr>) (ascii ''abcdefghijklm'') @
       [\<lparr>msg_id = ascii ''s2'', role = ascii ''system'', content = ascii ''deleted'',
          sources = None, ts = 4\<rparr>,
        \<lparr>msg_id = ascii ''a1'', role = ascii ''assistant'', content = ascii ''n'',
          sources = Some [], ts = 5\<rparr>]\<rparr>"

definition busy_chat_body :: chat_body where
  "busy_chat_body = \<lparr>message = ascii ''hello'', top_k = 5,
     history = map (\<lambda>c. \<lparr>h_role = ascii ''user'', h_content = [c]\<rparr>) (ascii ''defghijklm'') @
               [\<lparr>h_role = ascii ''assistant'', h_content = ascii ''n''\<rparr>,
                \<lparr>h_role = ascii ''user'', h_content = ascii ''hello''\<rparr>],
     selected_files = None\<rparr>"



section \<open>What a run adds to the list of calls\<close>

text \<open>\<open>logs P p\<close>: whatever the state, \<open>p\<close> only appends calls that satisfy \<open>P\<close>.\<close>

definition logs :: "(jsstring \<times> options \<times> nat \<Rightarrow> bool) \<Rightarrow> proc \<Rightarrow> bool" where
  "logs P p \<longleftrightarrow> (\<forall>s. \<exists>cs. sent (snd (p s)) = sent s @ cs \<and> list_all P cs)"



section \<open>Calls issued by the handlers\<close>

lemma logsI: "(\<And>s. \<exists>cs. sent (snd (p s)) = sent s @ cs \<and> list_all P cs) \<Longrightarrow> logs P p"
  by (simp add: logs_def)

lemma logsD: "logs P p \<Longrightarrow> \<exists>cs. sent (snd (p s)) = sent s @ cs \<and> list_all P cs"
  by (simp add: logs_def)

lemma logs_skip: "logs P skip"
  by (simp add: logs_def skip_def)

lemma logs_throw: "logs P (throw err)"
  by (simp add: logs_def throw_def)

lemma logs_upd: "(\<And>s. sent (f s) = sent s) \<Longrightarrow> logs P (upd f)"
  by (simp add: logs_def upd_def)

lemma logs_push_msg: "logs P (push_msg m)"
  by (simp add: push_msg_def logs_upd)

lemma logs_seq:
  assumes "logs P p" and "logs P q"
  shows "logs P (seq p q)"
proof (rule logsI)
  fix s
  obtain r s1 where p: "p s = (r, s1)" by (cases "p s")
  from logsD [OF assms(1), of s] p obtain cs where cs: "sent s1 = sent s @ cs" "list_all P cs"
    by auto
  from logsD [OF assms(2), of s1] obtain ds
    where "sent (snd (q s1)) = sent s1 @ ds" "list_all P ds" by auto
  with cs p show "\<exists>cs. sent (snd (seq p q s)) = sent s @ cs \<and> list_all P cs"
    by (cases r) (auto simp add: seq_def)
qed

lemma logs_try_catch:
  assumes "logs P p" and "\<And>err. logs P (h err)"
  shows "logs P (try_catch p h)"
proof (rule logsI)
  fix s
  obtain r s1 where p: "p s = (r, s1)" by (cases "p s")
  from logsD [OF assms(1), of s] p obtain cs where cs: "sent s1 = sent s @ cs" "list_all P cs"
    by auto
  show "\<exists>cs. sent (snd (try_catch p h s)) = sent s @ cs \<and> list_all P cs"
  proof (cases r)
    case Normal
    with cs p show ?thesis by (auto simp add: try_catch_def)
  next
    case (Throws err)
    from logsD [OF assms(2), of err s1] obtain ds
      where "sent (snd (h err s1)) = sent s1 @ ds" "list_all P ds" by auto
    with cs Throws p show ?thesis by (auto simp add: try_catch_def)
  next
    case Hangs
    with cs p show ?thesis by (auto simp add: try_catch_def)
  qed
qed

lemma logs_try_finally:
  assumes "logs P p" and "logs P q"
  shows "logs P (try_finally p q)"
proof (rule logsI)
  fix s
  obtain r s1 where p: "p s = (r, s1)" by (cases "p s")
  from logsD [OF assms(1), of s] p obtain cs where cs: "sent s1 = sent s @ cs" "list_all P cs"
    by auto
  from logsD [OF assms(2), of s1] obtain ds
    where ds: "sent (snd (q s1)) = sent s1 @ ds" "list_all P ds" by auto
  obtain r2 s2 where q: "q s1 = (r2, s2)" by (cases "q s1")
  with cs ds p show "\<exists>cs. sent (snd (try_finally p q s)) = sent s @ cs \<and> list_all P cs"
    by (cases r; cases r2) (auto simp add: try_finally_def)
qed

lemma logs_await_value: "(\<And>x. logs P (k x)) \<Longrightarrow> logs P (await_value v k)"
  by (cases v) (simp_all add: await_value_def logs_throw)

lemma logs_await_body: "(\<And>x. logs P (k x)) \<Longrightarrow> logs P (await_body v k)"
proof (rule logsI)
  fix s
  assume k: "\<And>x. logs P (k x)"
  show "\<exists>cs. sent (snd (await_body v k s)) = sent s @ cs \<and> list_all P cs"
  proof (cases v)
    case None
    then show ?thesis by (simp add: await_body_def)
  next
    case (Some r)
    then show ?thesis using logsD [OF k, of _ s]
      by (cases r) (simp_all add: await_body_def)
  qed
qed

lemma logs_get_prop: "(\<And>x. logs P (k x)) \<Longrightarrow> logs P (get_prop d name p k)"
  by (cases d) (simp_all add: get_prop_def logs_throw)

lemma logs_push_msg_reading: "logs P (push_msg_reading d name m)"
  by (cases d) (simp_all add: push_msg_reading_def logs_push_msg logs_upd)

lemma fetch_run:
  "fetchWithTimeout e u (Some opts) (Some t) s =
     (race t (net e u opts), s\<lparr>sent := sent s @ [(u, opts, t)]\<rparr>)"
  by (simp add: fetchWithTimeout_def)

lemma logs_await_fetch:
  assumes "P (u, opts, t)" and "\<And>res. logs P (k res)"
  shows "logs P (await_fetch (fetchWithTimeout e u (Some opts) (Some t)) k)"
proof (rule logsI)
  fix s :: app
  let ?s1 = "s\<lparr>sent := sent s @ [(u, opts, t)]\<rparr>"
  show "\<exists>cs. sent (snd (await_fetch (fetchWithTimeout e u (Some opts) (Some t)) k s)) = sent s @ cs
          \<and> list_all P cs"
  proof (cases "race t (net e u opts)")
    case (Inl err)
    with assms(1) show ?thesis by (simp add: await_fetch_def fetch_run)
  next
    case (Inr res)
    from logsD [OF assms(2), of res ?s1] obtain ds
      where "sent (snd (k res ?s1)) = (sent s @ [(u, opts, t)]) @ ds" "list_all P ds"
      by auto
    with Inr assms(1) show ?thesis by (simp add: await_fetch_def fetch_run)
  qed
qed

lemma logs_if: "logs P p \<Longrightarrow> logs P q \<Longrightarrow> logs P (if b then p else q)"
  by simp

lemma logs_let: "logs P (f x) \<Longrightarrow> logs P (Let x f)"
  by simp

lemmas logs_intros = logs_skip logs_throw logs_upd logs_push_msg logs_push_msg_reading logs_seq
  logs_try_catch logs_try_finally logs_await_value logs_await_body logs_get_prop logs_await_fetch
  logs_if logs_let

lemma logs_refreshHealth:
  "P (API e @ ascii ''/health'', no_options, 5000) \<Longrightarrow> logs P (refreshHealth e)"
  unfolding refreshHealth_def
  by (intro logs_intros; simp)


lemma seq_upd: "seq (upd f) p s = p (f s)"
  by (simp add: seq_def upd_def)

text \<open>A try/catch/finally whose try block starts with the fetch: that call comes first.\<close>

lemma first_call:
  assumes k: "\<And>res. logs P (k res)" and h: "\<And>err. logs P (h err)" and fin: "logs P fin"
  shows "\<exists>cs. sent (snd (try_finally
              (try_catch (await_fetch (fetchWithTimeout e u (Some opts) (Some t)) k) h) fin s))
            = sent s @ (u, opts, t) # cs \<and> list_all P cs"
proof -
  let ?s1 = "s\<lparr>sent := sent s @ [(u, opts, t)]\<rparr>"
  define rest where "rest = (case race t (net e u opts) of
                               Inl err \<Rightarrow> try_finally (h err) fin
                             | Inr res \<Rightarrow> try_finally (try_catch (k res) h) fin)"
  have run: "try_finally (try_catch (await_fetch (fetchWithTimeout e u (Some opts) (Some t)) k) h) fin s
               = rest ?s1"
    by (cases "race t (net e u opts)")
      (simp_all add: rest_def try_finally_def try_catch_def await_fetch_def fetch_run)
  have "logs P rest"
    unfolding rest_def
    by (cases "race t (net e u opts)") (simp_all add: logs_try_finally logs_try_catch k h fin)
  from logsD [OF this, of ?s1] obtain cs
    where "sent (snd (rest ?s1)) = sent ?s1 @ cs" "list_all P cs" by blast
  with run show ?thesis by simp
qed

lemma first_call3:
  assumes k: "\<And>res. logs P (k res)" and h: "\<And>err. logs P (h err)" and fin: "logs P fin"
    and f: "sent (f3 (f2 (f1 s))) = sent s"
  shows "\<exists>cs. sent (snd (seq (upd f1) (seq (upd f2) (seq (upd f3)
            (try_finally (try_catch (await_fetch (fetchWithTimeout e u (Some opts) (Some t)) k) h) fin))) s))
            = sent s @ (u, opts, t) # cs \<and> list_all P cs"
  using first_call [of P k h fin e u opts t "f3 (f2 (f1 s))", OF k h fin]
  by (simp add: seq_upd f)

section \<open>The chat request\<close>

lemma canSend_guard: "canSend s \<longleftrightarrow> \<not> (trim (input s) = [] \<or> loading s \<or> \<not> backendOk s)"
  by (auto simp add: canSend_def)

lemma send_blocked:
  assumes "trim (input s) = [] \<or> loading s \<or> \<not> backendOk s"
  shows "send e s = (Normal, s)"
  using assms by (auto simp add: send_def Let_def)

lemma send_sent:
  assumes "trim (input s) \<noteq> []" and "\<not> loading s" and "backendOk s"
  shows "\<exists>cs. sent (snd (send e s)) = sent s @
     (API e @ ascii ''/chat'',
      \<lparr>http_method = Some (ascii ''POST''),
       headers = [(ascii ''Content-Type'', ascii ''application/json'')],
       body = JsonBody \<lparr>message = trim (input s), top_k = 5,
         history = map (\<lambda>m. \<lparr>h_role = role m, h_content = content m\<rparr>)
           (slice_last 12
             (filter (\<lambda>m. role m = ascii ''user'' \<or> role m = ascii ''assistant'')
                (messagesRef s @ [new_msg e 0 (ascii ''user'') (trim (input s)) None]))),
         selected_files = (if length (selectedFiles s) > 0 then Some (selectedFiles s) else None)\<rparr>\<rparr>,
      30000) # cs
     \<and> list_all (\<lambda>c. c = (API e @ ascii ''/health'', no_options, 5000)) cs"
proof -
  have g: "(trim (input s) = [] \<or> loading s \<or> \<not> backendOk s) = False"
    using assms by simp
  show ?thesis
    unfolding send_def Let_def g if_False
    by (rule first_call3) ((intro logs_intros logs_refreshHealth; simp)+, simp)
qed

lemma send_chat_body:
  assumes "(u, opts, t) \<in> set (issued (send e) s)" and "body opts = JsonBody b"
  shows "trim (input s) \<noteq> [] \<and> \<not> loading s \<and> backendOk s \<and>
     b = \<lparr>message = trim (input s), top_k = 5,
         history = map (\<lambda>m. \<lparr>h_role = role m, h_content = content m\<rparr>)
           (slice_last 12
             (filter (\<lambda>m. role m = ascii ''user'' \<or> role m = ascii ''assistant'')
                (messagesRef s @ [new_msg e 0 (ascii ''user'') (trim (input s)) None]))),
         selected_files = (if length (selectedFiles s) > 0 then Some (selectedFiles s) else None)\<rparr>"
proof (cases "trim (input s) = [] \<or> loading s \<or> \<not> backendOk s")
  case True
  from send_blocked [OF this, of e] assms(1) show ?thesis by (simp add: issued_def)
next
  case False
  then have g: "trim (input s) \<noteq> []" "\<not> loading s" "backendOk s" by auto
  from send_sent [OF g, of e] obtain c cs where
    "issued (send e) s = c # cs"
    and "c = (API e @ ascii ''/chat'',
      \<lparr>http_method = Some (ascii ''POST''),
       headers = [(ascii ''Content-Type'', ascii ''application/json'')],
       body = JsonBody \<lparr>message = trim (input s), top_k = 5,
         history = map (\<lambda>m. \<lparr>h_role = role m, h_content = content m\<rparr>)
           (slice_last 12
             (filter (\<lambda>m. role m = ascii ''user'' \<or> role m = ascii ''assistant'')
                (messagesRef s @ [new_msg e 0 (ascii ''user'') (trim (input s)) None]))),
         selected_files = (if length (selectedFiles s) > 0 then Some (selectedFiles s) else None)\<rparr>\<rparr>,
      30000)"
    and "list_all (\<lambda>c. c = (API e @ ascii ''/health'', no_options, 5000)) cs"
    by (auto simp add: issued_def)
  with assms g show ?thesis
    by (auto simp add: list_all_iff no_options_def)
qed

lemmas run_defs = issued_def send_def Let_def seq_def upd_def skip_def throw_def
  try_finally_def try_catch_def await_fetch_def await_value_def await_body_def get_prop_def
  fetchWithTimeout_def race_def timer_delay_def push_msg_def new_msg_def refreshHealth_def
  refreshDocs_def trim_def isWhiteSpace_def ascii_def API_def slice_last_def no_options_def
  error_text_def const_env_def reply_def

lemma sample_issued:
  "issued (send (const_env Pending)) sample_app =
     [(API (const_env Pending) @ ascii ''/chat'', chat_options sample_chat_body, 30000),
      (API (const_env Pending) @ ascii ''/health'', no_options, 5000)]"
  by (simp add: run_defs sample_app_def sample_chat_body_def chat_options_def)

lemma busy_issued:
  "issued (send (const_env Pending)) busy_app =
     [(API (const_env Pending) @ ascii ''/chat'', chat_options busy_chat_body, 30000),
      (API (const_env Pending) @ ascii ''/health'', no_options, 5000)]"
  by (simp add: run_defs busy_app_def sample_app_def busy_chat_body_def chat_options_def)

text \<open>
  C1. In every chat request that \<open>send\<close> issues, \<open>selected_files\<close> is null when the
  selection is empty and is the selection itself otherwise; it is never an empty list.
\<close>

theorem send_selected_files:
  assumes "(u, opts, t) \<in> set (issued (send e) s)" and "body opts = JsonBody b"
  shows "(selectedFiles s = [] \<longrightarrow> selected_files b = None)
       \<and> (selectedFiles s \<noteq> [] \<longrightarrow> selected_files b = Some (selectedFiles s))
       \<and> selected_files b \<noteq> Some []"
proof -
  from send_chat_body [OF assms]
  have "selected_files b = (if length (selectedFiles s) > 0 then Some (selectedFiles s) else None)"
    by simp
  then show ?thesis by auto
qed

theorem send_selected_files_witness:
  "(API (const_env Pending) @ ascii ''/chat'', chat_options sample_chat_body, 30000)
      \<in> set (issued (send (const_env Pending)) sample_app)
   \<and> body (chat_options sample_chat_body) = JsonBody sample_chat_body
   \<and> selectedFiles sample_app = [ascii ''b.txt'', ascii ''a.txt'']
   \<and> selected_files sample_chat_body = Some [ascii ''b.txt'', ascii ''a.txt'']
   \<and> (API (const_env Pending) @ ascii ''/chat'', chat_options busy_chat_body, 30000)
      \<in> set (issued (send (const_env Pending)) busy_app)
   \<and> body (chat_options busy_chat_body) = JsonBody busy_chat_body
   \<and> selectedFiles busy_app = []
   \<and> selected_files busy_chat_body = None"
proof -
  have m1: "(API (const_env Pending) @ ascii ''/chat'', chat_options sample_chat_body, 30000)
      \<in> set (issued (send (const_env Pending)) sample_app)"
    by (simp add: sample_issued)
  have m2: "(API (const_env Pending) @ ascii ''/chat'', chat_options busy_chat_body, 30000)
      \<in> set (issued (send (const_env Pending)) busy_app)"
    by (simp add: busy_issued)
  have b: "body (chat_options c) = JsonBody c" for c
    by (simp add: chat_options_def)
  from send_selected_files [OF m1 b] send_selected_files [OF m2 b] m1 m2 b
  show ?thesis
    by (simp add: sample_app_def busy_app_def)
qed

lemma slice_last_length: "length (slice_last n xs) \<le> n"
  by (simp add: slice_last_def)

lemma slice_last_suffix: "suffix (slice_last n xs) xs"
  by (simp add: slice_last_def suffix_drop)

lemma slice_last_snoc: "0 < n \<Longrightarrow> slice_last n (xs @ [x]) \<noteq> [] \<and> last (slice_last n (xs @ [x])) = x"
  by (simp add: slice_last_def)

text \<open>
  C2. In every chat request that \<open>send\<close> issues, whatever the message list, the
  \<open>history\<close> holds only entries whose role is user or assistant (none with role
  system), each the \<open>{role, content}\<close> of a message; it is the end of the filtered
  message list, in the original order with the message just sent last, and it has at most
  12 entries.
\<close>

theorem send_history:
  assumes "(u, opts, t) \<in> set (issued (send e) s)" and "body opts = JsonBody b"
  shows "(\<forall>h \<in> set (history b). h_role h = ascii ''user'' \<or> h_role h = ascii ''assistant'')
       \<and> (\<forall>h \<in> set (history b). h_role h \<noteq> ascii ''system'')
       \<and> length (history b) \<le> 12
       \<and> suffix (history b)
           (map (\<lambda>m. \<lparr>h_role = role m, h_content = content m\<rparr>)
             (filter (\<lambda>m. role m = ascii ''user'' \<or> role m = ascii ''assistant'')
               (messagesRef s @ [new_msg e 0 (ascii ''user'') (trim (input s)) None])))
       \<and> subseq (history b)
           (map (\<lambda>m. \<lparr>h_role = role m, h_content = content m\<rparr>)
             (messagesRef s @ [new_msg e 0 (ascii ''user'') (trim (input s)) None]))
       \<and> history b \<noteq> []
       \<and> last (history b) = \<lparr>h_role = ascii ''user'', h_content = trim (input s)\<rparr>"
proof -
  let ?f = "\<lambda>m. \<lparr>h_role = role m, h_content = content m\<rparr>"
  let ?p = "\<lambda>m. role m = ascii ''user'' \<or> role m = ascii ''assistant''"
  let ?um = "new_msg e 0 (ascii ''user'') (trim (input s)) None"
  let ?all = "messagesRef s @ [?um]"
  from send_chat_body [OF assms]
  have hist: "history b = map ?f (slice_last 12 (filter ?p ?all))"
    by simp
  have suf: "suffix (slice_last 12 (filter ?p ?all)) (filter ?p ?all)"
    by (rule slice_last_suffix)
  then have sub: "set (slice_last 12 (filter ?p ?all)) \<subseteq> set (filter ?p ?all)"
    by (rule set_mono_suffix)
  have roles: "\<forall>h \<in> set (history b). h_role h = ascii ''user'' \<or> h_role h = ascii ''assistant''"
    using sub by (auto simp add: hist)
  have ne: "ascii ''user'' \<noteq> ascii ''system''" "ascii ''assistant'' \<noteq> ascii ''system''"
    by (simp_all add: ascii_def)
  from roles ne have nosys: "\<forall>h \<in> set (history b). h_role h \<noteq> ascii ''system''"
    by auto
  have len: "length (history b) \<le> 12"
    by (simp add: hist slice_last_length)
  have suffix: "suffix (history b) (map ?f (filter ?p ?all))"
    unfolding hist using suf by (rule map_mono_suffix)
  have "subseq (map ?f (filter ?p ?all)) (map ?f ?all)"
    by (rule subseq_map) (rule subseq_filter_left)
  with suffix have subseq: "subseq (history b) (map ?f ?all)"
    by (meson suffix_imp_subseq subseq_order.trans)
  have um: "filter ?p ?all = filter ?p (messagesRef s) @ [?um]"
    by (simp add: new_msg_def)
  have lst: "history b \<noteq> [] \<and> last (history b) = \<lparr>h_role = ascii ''user'', h_content = trim (input s)\<rparr>"
    using slice_last_snoc [of 12 "filter ?p (messagesRef s)" ?um]
    by (simp add: hist um last_map new_msg_def)
  from roles nosys len suffix subseq lst show ?thesis
    by blast
qed

theorem send_history_witness:
  "(API (const_env Pending) @ ascii ''/chat'', chat_options busy_chat_body, 30000)
      \<in> set (issued (send (const_env Pending)) busy_app)
   \<and> body (chat_options busy_chat_body) = JsonBody busy_chat_body
   \<and> length (messagesRef busy_app) = 15
   \<and> map role (drop 13 (messagesRef busy_app)) = [ascii ''system'', ascii ''assistant'']
   \<and> length (history busy_chat_body) = 12
   \<and> set (map h_role (history busy_chat_body)) = {ascii ''user'', ascii ''assistant''}
   \<and> last (history busy_chat_body) = \<lparr>h_role = ascii ''user'', h_content = ascii ''hello''\<rparr>"
proof -
  have m: "(API (const_env Pending) @ ascii ''/chat'', chat_options busy_chat_body, 30000)
      \<in> set (issued (send (const_env Pending)) busy_app)"
    by (simp add: busy_issued)
  have b: "body (chat_options busy_chat_body) = JsonBody busy_chat_body"
    by (simp add: chat_options_def)
  have ev: "length (messagesRef busy_app) = 15"
    "map role (drop 13 (messagesRef busy_app)) = [ascii ''system'', ascii ''assistant'']"
    "length (history busy_chat_body) = 12"
    "set (map h_role (history busy_chat_body)) = {ascii ''user'', ascii ''assistant''}"
    "last (history busy_chat_body) = \<lparr>h_role = ascii ''user'', h_content = ascii ''hello''\<rparr>"
    by (auto simp add: busy_app_def sample_app_def busy_chat_body_def ascii_def)
  from send_history [OF m b] m b ev show ?thesis
    by blast
qed

text \<open>
  C3. If the trimmed input is empty, or a request is in flight, or the backend is marked
  down, \<open>send\<close> issues no request and leaves the state, so the message list, as it is.
  Otherwise it issues a chat request, first of its calls; and in every chat request it
  issues, \<open>message\<close> is the trimmed input, which is not empty, and \<open>top_k\<close> is 5,
  positive and at most 20.
\<close>

theorem send_guard:
  "(trim (input s) = [] \<or> loading s \<or> \<not> backendOk s \<longrightarrow>
      send e s = (Normal, s) \<and> issued (send e) s = [] \<and> messages (snd (send e s)) = messages s)
   \<and> (trim (input s) \<noteq> [] \<and> \<not> loading s \<and> backendOk s \<longrightarrow>
      (\<exists>opts b cs. issued (send e) s = (API e @ ascii ''/chat'', opts, 30000) # cs
          \<and> body opts = JsonBody b \<and> list_all (\<lambda>c. body (fst (snd c)) = NoBody) cs))
   \<and> (\<forall>u opts t b. (u, opts, t) \<in> set (issued (send e) s) \<and> body opts = JsonBody b \<longrightarrow>
        message b = trim (input s) \<and> message b \<noteq> [] \<and> top_k b = 5
        \<and> 0 < top_k b \<and> top_k b \<le> 20)"
proof (intro conjI impI allI)
  assume "trim (input s) = [] \<or> loading s \<or> \<not> backendOk s"
  from send_blocked [OF this, of e]
  show "send e s = (Normal, s)" and "issued (send e) s = []"
    and "messages (snd (send e s)) = messages s"
    by (simp_all add: issued_def)
next
  assume "trim (input s) \<noteq> [] \<and> \<not> loading s \<and> backendOk s"
  then have g: "trim (input s) \<noteq> []" "\<not> loading s" "backendOk s" by auto
  from send_sent [OF g, of e] obtain opts cs
    where "issued (send e) s = (API e @ ascii ''/chat'', opts, 30000) # cs"
      and "\<exists>b. body opts = JsonBody b"
      and "list_all (\<lambda>c. c = (API e @ ascii ''/health'', no_options, 5000)) cs"
    by (auto simp add: issued_def)
  moreover from this(3) have "list_all (\<lambda>c. body (fst (snd c)) = NoBody) cs"
    by (auto simp add: list_all_iff no_options_def)
  ultimately show "\<exists>opts b cs. issued (send e) s = (API e @ ascii ''/chat'', opts, 30000) # cs
          \<and> body opts = JsonBody b \<and> list_all (\<lambda>c. body (fst (snd c)) = NoBody) cs"
    by blast
next
  fix u opts t b
  assume "(u, opts, t) \<in> set (issued (send e) s) \<and> body opts = JsonBody b"
  then have "(u, opts, t) \<in> set (issued (send e) s)" and "body opts = JsonBody b"
    by simp_all
  from send_chat_body [OF this]
  show "message b = trim (input s)" and "message b \<noteq> []" and "top_k b = 5"
    and "0 < top_k b" and "top_k b \<le> 20"
    by simp_all
qed

theorem send_guard_witness:
  "loading (sample_app\<lparr>loading := True\<rparr>)
   \<and> send (const_env Pending) (sample_app\<lparr>loading := True\<rparr>) = (Normal, sample_app\<lparr>loading := True\<rparr>)
   \<and> trim (input (sample_app\<lparr>input := ascii ''  ''\<rparr>)) = []
   \<and> issued (send (const_env Pending)) (sample_app\<lparr>input := ascii ''  ''\<rparr>) = []
   \<and> \<not> backendOk (sample_app\<lparr>backendOk := False\<rparr>)
   \<and> messages (snd (send (const_env Pending) (sample_app\<lparr>backendOk := False\<rparr>))) = messages sample_app
   \<and> trim (input sample_app) = ascii ''hello'' \<and> \<not> loading sample_app \<and> backendOk sample_app
   \<and> (API (const_env Pending) @ ascii ''/chat'', chat_options sample_chat_body, 30000)
        \<in> set (issued (send (const_env Pending)) sample_app)
   \<and> body (chat_options sample_chat_body) = JsonBody sample_chat_body
   \<and> message sample_chat_body = ascii ''hello'' \<and> top_k sample_chat_body = 5"
proof -
  have m: "(API (const_env Pending) @ ascii ''/chat'', chat_options sample_chat_body, 30000)
      \<in> set (issued (send (const_env Pending)) sample_app)"
    by (simp add: sample_issued)
  have b: "body (chat_options sample_chat_body) = JsonBody sample_chat_body"
    by (simp add: chat_options_def)
  have t: "trim (input sample_app) = ascii ''hello''"
    "trim (input (sample_app\<lparr>input := ascii ''  ''\<rparr>)) = []"
    by (simp_all add: sample_app_def trim_def isWhiteSpace_def ascii_def)
  have f: "\<not> loading sample_app" "backendOk sample_app"
    by (simp_all add: sample_app_def)
  from send_guard [of "sample_app\<lparr>loading := True\<rparr>" "const_env Pending"]
    send_guard [of "sample_app\<lparr>input := ascii ''  ''\<rparr>" "const_env Pending"]
    send_guard [of "sample_app\<lparr>backendOk := False\<rparr>" "const_env Pending"]
    send_guard [of sample_app "const_env Pending"] m b t f
  show ?thesis
    by (simp add: sample_chat_body_def)
qed

section \<open>The health probe\<close>

lemma refreshHealth_state:
  "refreshHealth e s =
     (case race 5000 (net e (API e @ ascii ''/health'') no_options) of
        Inl err \<Rightarrow>
          (Normal, s\<lparr>sent := sent s @ [(API e @ ascii ''/health'', no_options, 5000)],
                      backendOk := False, chunksIndexed := None\<rparr>)
      | Inr res \<Rightarrow>
          if \<not> ok res
          then (Normal, s\<lparr>sent := sent s @ [(API e @ ascii ''/health'', no_options, 5000)],
                          backendOk := False, chunksIndexed := None\<rparr>)
          else (case json res of
                  None \<Rightarrow> (Hangs, s\<lparr>sent := sent s @ [(API e @ ascii ''/health'', no_options, 5000)]\<rparr>)
                | Some (Inr (Some d)) \<Rightarrow>
                    (Normal, s\<lparr>sent := sent s @ [(API e @ ascii ''/health'', no_options, 5000)],
                      backendOk := True,
                      chunksIndexed := (case chunks_indexed d of JNum n \<Rightarrow> Some n | _ \<Rightarrow> None)\<rparr>)
                | Some _ \<Rightarrow>
                    (Normal, s\<lparr>sent := sent s @ [(API e @ ascii ''/health'', no_options, 5000)],
                          backendOk := False, chunksIndexed := None\<rparr>)))"
  unfolding refreshHealth_def try_catch_def await_fetch_def fetch_run await_body_def
    get_prop_def seq_def upd_def throw_def
  by (simp split: sum.splits option.splits)

lemma refreshHealth_run:
  assumes "refreshHealth e s = (r, s')"
  shows "(r = Normal \<or> r = Hangs)
       \<and> selectedFiles s' = selectedFiles s \<and> messages s' = messages s
       \<and> uploadMsg s' = uploadMsg s \<and> docs s' = docs s \<and> loading s' = loading s
       \<and> uploading s' = uploading s \<and> docsLoading s' = docsLoading s
       \<and> renderError s' = renderError s"
  using assms unfolding refreshHealth_state
  by (auto split: sum.splits option.splits if_splits)



section \<open>The selection follows the document list\<close>

lemma refreshDocs_state:
  "refreshDocs e s =
     (case race 10000 (net e (API e @ ascii ''/documents'') no_options) of
        Inl err \<Rightarrow>
          (Normal, s\<lparr>docsLoading := False,
                      sent := sent s @ [(API e @ ascii ''/documents'', no_options, 10000)]\<rparr>)
      | Inr res \<Rightarrow>
          (case json res of
             None \<Rightarrow>
               (Hangs, s\<lparr>docsLoading := True,
                         sent := sent s @ [(API e @ ascii ''/documents'', no_options, 10000)]\<rparr>)
           | Some (Inr (Some d)) \<Rightarrow>
               (Normal, s\<lparr>docsLoading := False,
                 sent := sent s @ [(API e @ ascii ''/documents'', no_options, 10000)],
                 docs := (case files d of None \<Rightarrow> [] | Some x \<Rightarrow> x),
                 selectedFiles :=
                   filter (\<lambda>f. list_ex (\<lambda>x. file_name x = f) (case files d of None \<Rightarrow> [] | Some x \<Rightarrow> x))
                     (selectedFiles s)\<rparr>)
           | Some _ \<Rightarrow>
               (Normal, s\<lparr>docsLoading := False,
                    sent := sent s @ [(API e @ ascii ''/documents'', no_options, 10000)]\<rparr>)))"
  unfolding refreshDocs_def try_finally_def try_catch_def await_fetch_def fetch_run await_body_def
    get_prop_def seq_def upd_def throw_def skip_def Let_def
  by (simp split: sum.splits option.splits)

lemma refreshDocs_run:
  assumes "refreshDocs e s = (r, s')"
  shows "(r = Normal \<or> r = Hangs)
       \<and> set (selectedFiles s') \<subseteq> set (selectedFiles s) \<and> messages s' = messages s
       \<and> uploadMsg s' = uploadMsg s \<and> backendOk s' = backendOk s
       \<and> loading s' = loading s \<and> uploading s' = uploading s
       \<and> renderError s' = renderError s"
  using assms unfolding refreshDocs_state
  by (auto split: sum.splits option.splits)

text \<open>
  C8. After a \<open>refreshDocs\<close> that fetched and parsed the list, every selected name is
  the \<open>file_name\<close> of a fetched document (and \<open>docs\<close> is the fetched list); after a
  \<open>deleteDoc f\<close> that was confirmed and answered ok with a JSON object, \<open>f\<close> is not
  selected; after a \<open>clearIndex\<close> that was confirmed and answered ok with a JSON
  object, nothing is selected.
\<close>

theorem selection_consistent:
  "(\<forall>res d. race 10000 (net e (API e @ ascii ''/documents'') no_options) = Inr res
        \<and> json res = Some (Inr (Some d)) \<longrightarrow>
      fst (refreshDocs e s) = Normal
      \<and> docs (snd (refreshDocs e s)) = (case files d of None \<Rightarrow> [] | Some x \<Rightarrow> x)
      \<and> (\<forall>n \<in> set (selectedFiles (snd (refreshDocs e s))).
            \<exists>x \<in> set (docs (snd (refreshDocs e s))). file_name x = n))
   \<and> (\<forall>enc res d. f \<noteq> []
        \<and> confirm e (ascii ''Supprimer '' @ [0x22] @ f @ [0x22] @ ascii '' de l'' @ [0x27] @
                      ascii ''index ?'')
        \<and> encodeURIComponent e f = Inr enc
        \<and> race 15000 (net e (API e @ ascii ''/documents/'' @ enc)
             \<lparr>http_method = Some (ascii ''DELETE''), headers = [], body = NoBody\<rparr>) = Inr res
        \<and> ok res \<and> json res = Some (Inr (Some d)) \<longrightarrow>
      f \<notin> set (selectedFiles (snd (deleteDoc e f s))))
   \<and> (\<forall>res d.
        confirm e (ascii ''Vider tout l'' @ [0x27] @ ascii ''index (tous les documents) ?'')
        \<and> race 20000 (net e (API e @ ascii ''/index/clear'')
             \<lparr>http_method = Some (ascii ''POST''), headers = [], body = NoBody\<rparr>) = Inr res
        \<and> ok res \<and> json res = Some (Inr (Some d)) \<longrightarrow>
      selectedFiles (snd (clearIndex e s)) = [])"
proof (intro conjI allI impI)
  fix res d
  assume "race 10000 (net e (API e @ ascii ''/documents'') no_options) = Inr res
        \<and> json res = Some (Inr (Some d))"
  then show "fst (refreshDocs e s) = Normal"
    and "docs (snd (refreshDocs e s)) = (case files d of None \<Rightarrow> [] | Some x \<Rightarrow> x)"
    and "\<forall>n \<in> set (selectedFiles (snd (refreshDocs e s))).
            \<exists>x \<in> set (docs (snd (refreshDocs e s))). file_name x = n"
    by (simp_all add: refreshDocs_state list_ex_iff)
next
  fix enc res d
  assume h: "f \<noteq> []
        \<and> confirm e (ascii ''Supprimer '' @ [0x22] @ f @ [0x22] @ ascii '' de l'' @ [0x27] @
                      ascii ''index ?'')
        \<and> encodeURIComponent e f = Inr enc
        \<and> race 15000 (net e (API e @ ascii ''/documents/'' @ enc)
             \<lparr>http_method = Some (ascii ''DELETE''), headers = [], body = NoBody\<rparr>) = Inr res
        \<and> ok res \<and> json res = Some (Inr (Some d))"
  obtain r s' where run: "deleteDoc e f s = (r, s')" by (cases "deleteDoc e f s")
  then have "set (selectedFiles s') \<subseteq> set (filter (\<lambda>x. x \<noteq> f) (selectedFiles s))"
    using h
    unfolding deleteDoc_def try_catch_def await_fetch_def fetch_run await_value_def await_body_def
      seq_def upd_def push_msg_def push_msg_reading_def
    by (auto split: prod.splits completion.splits dest!: refreshDocs_run refreshHealth_run)
  with run show "f \<notin> set (selectedFiles (snd (deleteDoc e f s)))"
    by auto
next
  fix res d
  assume h: "confirm e (ascii ''Vider tout l'' @ [0x27] @ ascii ''index (tous les documents) ?'')
        \<and> race 20000 (net e (API e @ ascii ''/index/clear'')
             \<lparr>http_method = Some (ascii ''POST''), headers = [], body = NoBody\<rparr>) = Inr res
        \<and> ok res \<and> json res = Some (Inr (Some d))"
  obtain r s' where run: "clearIndex e s = (r, s')" by (cases "clearIndex e s")
  then have "set (selectedFiles s') \<subseteq> {}"
    using h
    unfolding clearIndex_def try_catch_def await_fetch_def fetch_run await_value_def await_body_def
      seq_def upd_def push_msg_def push_msg_reading_def
    by (auto split: prod.splits completion.splits dest!: refreshDocs_run refreshHealth_run)
  with run show "selectedFiles (snd (clearIndex e s)) = []"
    by simp
qed

theorem selection_consistent_witness:
  "race 10000 (net (const_env (reply True (Inr (Some sample_data))))
       (API (const_env (reply True (Inr (Some sample_data)))) @ ascii ''/documents'') no_options)
     = Inr \<lparr>ok = True, text_of = Some (Inr (ascii ''Internal Server Error'')),
            json = Some (Inr (Some sample_data))\<rparr>
   \<and> selectedFiles sample_app = [ascii ''b.txt'', ascii ''a.txt'']
   \<and> selectedFiles (snd (refreshDocs (const_env (reply True (Inr (Some sample_data)))) sample_app))
       = [ascii ''a.txt'']
   \<and> docs (snd (refreshDocs (const_env (reply True (Inr (Some sample_data)))) sample_app))
       = [\<lparr>file_name = ascii ''a.txt'', chunks = 2\<rparr>]
   \<and> confirm (const_env (reply True (Inr (Some sample_data)))) (ascii ''Supprimer '' @ [0x22] @
        ascii ''b.txt'' @ [0x22] @ ascii '' de l'' @ [0x27] @ ascii ''index ?'')
   \<and> encodeURIComponent (const_env (reply True (Inr (Some sample_data)))) (ascii ''b.txt'')
       = Inr (ascii ''b.txt'')
   \<and> ascii ''b.txt'' \<notin> set (selectedFiles
        (snd (deleteDoc (const_env (reply True (Inr (Some sample_data)))) (ascii ''b.txt'') sample_app)))
   \<and> selectedFiles (snd (clearIndex (const_env (reply True (Inr (Some sample_data)))) sample_app)) = []"
proof -
  let ?e = "const_env (reply True (Inr (Some sample_data)))"
  let ?res = "\<lparr>ok = True, text_of = Some (Inr (ascii ''Internal Server Error'')),
               json = Some (Inr (Some sample_data))\<rparr>"
  have r: "race t (net ?e u opts) = Inr ?res" if "20 < t" and "t \<le> 2147483647" for t u opts
    using that by (simp add: const_env_def reply_def race_def timer_delay_def)
  have c: "confirm ?e x" "encodeURIComponent ?e y = Inr y" for x y
    by (simp_all add: const_env_def)
  have n: "ascii ''b.txt'' \<noteq> []"
    by (simp add: ascii_def)
  have sel: "selectedFiles sample_app = [ascii ''b.txt'', ascii ''a.txt'']"
    by (simp add: sample_app_def)
  have rd: "selectedFiles (snd (refreshDocs ?e sample_app)) = [ascii ''a.txt'']"
    "docs (snd (refreshDocs ?e sample_app)) = [\<lparr>file_name = ascii ''a.txt'', chunks = 2\<rparr>]"
    unfolding refreshDocs_state r [of 10000, simplified]
    by (simp_all add: sel sample_data_def ascii_def)
  from selection_consistent [of ?e sample_app "ascii ''b.txt''"] r c n sel rd
  show ?thesis
    by simp
qed

section \<open>Timeouts\<close>











section \<open>Handlers that end\<close>
































section \<open>What a timeout shows\<close>









section \<open>The selection and the chat state\<close>

lemma keys_distinct: "STORAGE_KEY \<noteq> SELECTED_KEY"
  by (simp add: STORAGE_KEY_def SELECTED_KEY_def ascii_def)

text \<open>
  C9. For every selection and every file name \<open>f\<close>, \<open>toggleSelected f\<close> applied twice
  gives a selection with the same set of names as the original: unchanged when \<open>f\<close> was
  not selected, and with \<open>f\<close> moved to the end (its other occurrences removed) when it
  was.
\<close>

theorem toggleSelected_twice:
  "set (selectedFiles (toggleSelected f (toggleSelected f s))) = set (selectedFiles s)
   \<and> (f \<notin> set (selectedFiles s) \<longrightarrow>
        selectedFiles (toggleSelected f (toggleSelected f s)) = selectedFiles s)
   \<and> (f \<in> set (selectedFiles s) \<longrightarrow>
        selectedFiles (toggleSelected f (toggleSelected f s)) =
          filter (\<lambda>x. x \<noteq> f) (selectedFiles s) @ [f])"
proof (cases "f \<in> set (selectedFiles s)")
  case True
  then have "selectedFiles (toggleSelected f (toggleSelected f s)) =
      filter (\<lambda>x. x \<noteq> f) (selectedFiles s) @ [f]"
    by (simp add: toggleSelected_def Let_def)
  with True show ?thesis by auto
next
  case False
  then have "filter (\<lambda>x. x \<noteq> f) (selectedFiles s) = selectedFiles s"
    by (auto simp add: filter_id_conv)
  with False have "selectedFiles (toggleSelected f (toggleSelected f s)) = selectedFiles s"
    by (simp add: toggleSelected_def Let_def)
  with False show ?thesis by simp
qed

theorem toggleSelected_twice_witness:
  "ascii ''b.txt'' \<in> set (selectedFiles sample_app)
   \<and> selectedFiles (toggleSelected (ascii ''b.txt'') (toggleSelected (ascii ''b.txt'') sample_app))
       = [ascii ''a.txt'', ascii ''b.txt'']
   \<and> selectedFiles sample_app = [ascii ''b.txt'', ascii ''a.txt'']
   \<and> ascii ''c.txt'' \<notin> set (selectedFiles sample_app)
   \<and> selectedFiles (toggleSelected (ascii ''c.txt'') (toggleSelected (ascii ''c.txt'') sample_app))
       = selectedFiles sample_app"
  using toggleSelected_twice [of "ascii ''b.txt''" sample_app]
    toggleSelected_twice [of "ascii ''c.txt''" sample_app]
  by (simp add: sample_app_def ascii_def)

text \<open>
  C10. \<open>resetChat\<close> sets \<open>messages\<close> to the empty list and \<open>input\<close> and
  \<open>uploadMsg\<close> to the empty string, and removes the stored chat history; it changes
  nothing else: \<open>docs\<close>, \<open>selectedFiles\<close>, \<open>docSearch\<close>, \<open>backendOk\<close>,
  \<open>chunksIndexed\<close> and the stored selection are as before.
\<close>

theorem resetChat_frame:
  "resetChat s = s\<lparr>messages := [], input := [], uploadMsg := [],
                    localStorage := map_option (\<lambda>m. m(STORAGE_KEY := None)) (localStorage s)\<rparr>
   \<and> messages (resetChat s) = [] \<and> input (resetChat s) = [] \<and> uploadMsg (resetChat s) = []
   \<and> persisted (localStorage (resetChat s)) STORAGE_KEY = None
   \<and> docs (resetChat s) = docs s
   \<and> selectedFiles (resetChat s) = selectedFiles s
   \<and> docSearch (resetChat s) = docSearch s
   \<and> backendOk (resetChat s) = backendOk s
   \<and> chunksIndexed (resetChat s) = chunksIndexed s
   \<and> persisted (localStorage (resetChat s)) SELECTED_KEY = persisted (localStorage s) SELECTED_KEY"
proof -
  have eq: "resetChat s = s\<lparr>messages := [], input := [], uploadMsg := [],
                    localStorage := map_option (\<lambda>m. m(STORAGE_KEY := None)) (localStorage s)\<rparr>"
    by (cases "localStorage s") (simp_all add: resetChat_def removeItem_def Let_def)
  have "persisted (map_option (\<lambda>m. m(STORAGE_KEY := None)) (localStorage s)) STORAGE_KEY = None"
    by (cases "localStorage s") (simp_all add: persisted_def)
  moreover have "persisted (map_option (\<lambda>m. m(STORAGE_KEY := None)) (localStorage s)) SELECTED_KEY
      = persisted (localStorage s) SELECTED_KEY"
    using keys_distinct by (cases "localStorage s") (simp_all add: persisted_def)
  ultimately show ?thesis
    by (simp add: eq)
qed

text \<open>
  The effect that persists the messages runs after the next render: it stores the empty
  list under the key again.
\<close>

lemma effects_after_resetChat:
  "persisted (localStorage (effects (resetChat s))) STORAGE_KEY =
     (case localStorage s of None \<Rightarrow> None | Some m \<Rightarrow> Some (MessagesJSON []))"
  using keys_distinct
  by (cases "localStorage s")
    (simp_all add: effects_def resetChat_def removeItem_def setItem_def persisted_def Let_def)

section \<open>The index: duplicates and deletion\<close>

lemma embed_all_length: "embed_all embedder xs = Some r \<Longrightarrow> length r = length xs"
  by (induction xs arbitrary: r) (auto split: option.splits)

lemma doc_exists_count: "doc_exists f ix \<longleftrightarrow> 0 < chunk_count f ix"
  by (auto simp add: doc_exists_def chunk_count_def list_ex_iff filter_empty_conv)

lemma chunk_count_insert:
  "chunk_count f (snd (insert_document f items ix)) = chunk_count f ix + length items"
proof -
  have "filter (\<lambda>c. chunk_file c = f)
          (map (\<lambda>(i, (t, v)). \<lparr>chunk_id = next_id ix + i, chunk_file = f, chunk_index = i,
                               chunk_text = t, embedding = v\<rparr>) xs)
        = map (\<lambda>(i, (t, v)). \<lparr>chunk_id = next_id ix + i, chunk_file = f, chunk_index = i,
                               chunk_text = t, embedding = v\<rparr>) xs" for xs :: "(nat \<times> string \<times> 'a) list"
    by (induction xs) auto
  then show ?thesis
    by (simp add: chunk_count_def insert_document_def)
qed

lemma ingest_committed:
  assumes "ingest chunker embedder f raw ix = (Inr n, ix1)"
  shows "\<not> doc_exists f ix" and "0 < n" and "chunk_count f ix1 = n"
proof -
  from assms show nex: "\<not> doc_exists f ix"
    by (auto simp add: ingest_def split: if_splits)
  from assms nex obtain items where
    items: "embed_all embedder (chunker raw) = Some items" "chunker raw \<noteq> []"
    and ins: "insert_document f items ix = (n, ix1)"
    by (auto simp add: ingest_def split: if_splits option.splits prod.splits)
  from ins have n: "n = length items" by (simp add: insert_document_def)
  with items embed_all_length [OF items(1)] show "0 < n" by simp
  from nex have "chunk_count f ix = 0" by (simp add: doc_exists_count)
  with chunk_count_insert [of f items ix] ins n show "chunk_count f ix1 = n" by simp
qed

text \<open>
  C6. Uploading a \<open>file_name\<close> that is already in the index fails with a
  \<open>DuplicateDocumentError\<close> and leaves the index as it was; so after a first upload
  that committed \<open>n\<close> chunks, a second upload of the same name is rejected and the
  chunk count of that name is still \<open>n\<close>.
\<close>

theorem ingest_duplicate_rejected:
  "(doc_exists f ix \<longrightarrow> ingest chunker embedder f raw ix = (Inl DuplicateDocumentError, ix))
   \<and> (ingest chunker embedder f raw ix = (Inr n, ix1) \<longrightarrow>
        ingest chunker embedder f raw2 ix1 = (Inl DuplicateDocumentError, ix1)
        \<and> chunk_count f ix1 = n
        \<and> chunk_count f (snd (ingest chunker embedder f raw2 ix1)) = n)"
proof (intro conjI impI)
  assume "doc_exists f ix"
  then show "ingest chunker embedder f raw ix = (Inl DuplicateDocumentError, ix)"
    by (simp add: ingest_def)
next
  assume first: "ingest chunker embedder f raw ix = (Inr n, ix1)"
  from ingest_committed [OF first] have "doc_exists f ix1" and c: "chunk_count f ix1 = n"
    by (simp_all add: doc_exists_count)
  then show dup: "ingest chunker embedder f raw2 ix1 = (Inl DuplicateDocumentError, ix1)"
    by (simp add: ingest_def)
  show "chunk_count f ix1 = n" by (rule c)
  show "chunk_count f (snd (ingest chunker embedder f raw2 ix1)) = n"
    by (simp add: dup c)
qed

theorem ingest_duplicate_rejected_witness:
  "ingest (\<lambda>t. [t]) (\<lambda>t. Some (length t)) ''x'' ''Paris is the capital of France.'' empty_index
     = (Inr 1, \<lparr>stored_chunks = [\<lparr>chunk_id = 0, chunk_file = ''x'', chunk_index = 0,
          chunk_text = ''Paris is the capital of France.'', embedding = 31\<rparr>], next_id = 1\<rparr>)
   \<and> doc_exists ''x'' \<lparr>stored_chunks = [\<lparr>chunk_id = 0, chunk_file = ''x'', chunk_index = 0,
          chunk_text = ''Paris is the capital of France.'', embedding = 31::nat\<rparr>], next_id = 1\<rparr>
   \<and> ingest (\<lambda>t. [t]) (\<lambda>t. Some (length t)) ''x'' ''Again.''
        \<lparr>stored_chunks = [\<lparr>chunk_id = 0, chunk_file = ''x'', chunk_index = 0,
          chunk_text = ''Paris is the capital of France.'', embedding = 31\<rparr>], next_id = 1\<rparr>
     = (Inl DuplicateDocumentError,
        \<lparr>stored_chunks = [\<lparr>chunk_id = 0, chunk_file = ''x'', chunk_index = 0,
          chunk_text = ''Paris is the capital of France.'', embedding = 31\<rparr>], next_id = 1\<rparr>)
   \<and> chunk_count ''x'' \<lparr>stored_chunks = [\<lparr>chunk_id = 0, chunk_file = ''x'', chunk_index = 0,
          chunk_text = ''Paris is the capital of France.'', embedding = 31::nat\<rparr>], next_id = 1\<rparr> = 1"
proof -
  have first: "ingest (\<lambda>t. [t]) (\<lambda>t. Some (length t)) ''x'' ''Paris is the capital of France.'' empty_index
     = (Inr 1, \<lparr>stored_chunks = [\<lparr>chunk_id = 0, chunk_file = ''x'', chunk_index = 0,
          chunk_text = ''Paris is the capital of France.'', embedding = 31\<rparr>], next_id = 1\<rparr>)"
    by (simp add: ingest_def doc_exists_def empty_index_def insert_document_def)
  have ex: "doc_exists ''x'' \<lparr>stored_chunks = [\<lparr>chunk_id = 0, chunk_file = ''x'', chunk_index = 0,
          chunk_text = ''Paris is the capital of France.'', embedding = 31::nat\<rparr>], next_id = 1\<rparr>"
    by (simp add: doc_exists_def)
  from ingest_duplicate_rejected [of "''x''" _ "\<lambda>t. [t]" "\<lambda>t. Some (length t)"
      "''Paris is the capital of France.''" 1 _ "''Again.''"] first ex
  show ?thesis by simp
qed

text \<open>
  C7. \<open>delete_document\<close> is idempotent: for a \<open>file_name\<close> that is not in the index it
  returns 0 and leaves the index as it is; for one that is, a first call returns a
  positive count and a second call returns 0; \<open>clear\<close> on an index without chunks
  returns 0.
\<close>

theorem delete_document_idempotent:
  "(\<not> doc_exists f ix \<longrightarrow> delete_document f ix = (0, ix))
   \<and> (doc_exists f ix \<longrightarrow>
        0 < fst (delete_document f ix)
        \<and> fst (delete_document f (snd (delete_document f ix))) = 0)
   \<and> fst (clear (empty_index :: 'v index)) = 0
   \<and> (count ix = 0 \<longrightarrow> clear ix = (0, ix))"
proof (intro conjI impI)
  assume "\<not> doc_exists f ix"
  then have "filter (\<lambda>c. chunk_file c = f) (stored_chunks ix) = []"
    and "filter (\<lambda>c. chunk_file c \<noteq> f) (stored_chunks ix) = stored_chunks ix"
    by (auto simp add: doc_exists_def list_ex_iff filter_empty_conv filter_id_conv)
  then show "delete_document f ix = (0, ix)"
    by (simp add: delete_document_def)
next
  assume "doc_exists f ix"
  then show "0 < fst (delete_document f ix)"
    by (simp add: doc_exists_count chunk_count_def delete_document_def)
next
  show "fst (delete_document f (snd (delete_document f ix))) = 0"
    by (simp add: delete_document_def filter_empty_conv)
next
  show "fst (clear (empty_index :: 'v index)) = 0"
    by (simp add: clear_def empty_index_def)
next
  assume "count ix = 0"
  then show "clear ix = (0, ix)"
    by (simp add: clear_def count_def)
qed

theorem delete_document_idempotent_witness:
  "doc_exists ''x'' (snd (insert_document ''x'' [(''one'', ()), (''two'', ())] empty_index))
   \<and> fst (delete_document ''x'' (snd (insert_document ''x'' [(''one'', ()), (''two'', ())] empty_index))) = 2
   \<and> fst (delete_document ''x'' (snd (delete_document ''x''
        (snd (insert_document ''x'' [(''one'', ()), (''two'', ())] empty_index))))) = 0
   \<and> \<not> doc_exists ''y'' (snd (insert_document ''x'' [(''one'', ()), (''two'', ())] empty_index))
   \<and> fst (delete_document ''y'' (snd (insert_document ''x'' [(''one'', ()), (''two'', ())] empty_index))) = 0
   \<and> count (empty_index :: unit index) = 0
   \<and> clear (empty_index :: unit index) = (0, empty_index)"
  using delete_document_idempotent
      [of "''x''" "snd (insert_document ''x'' [(''one'', ()), (''two'', ())] empty_index)"]
    delete_document_idempotent
      [of "''y''" "snd (insert_document ''x'' [(''one'', ()), (''two'', ())] empty_index)"]
    delete_document_idempotent [of _ "empty_index :: unit index"]
  by (simp add: doc_exists_def delete_document_def insert_document_def empty_index_def count_def
      clear_def upt_rec)

end
